theory Spec2Isabelle
  imports Main "HOL-Library.Sublist"
begin

section \<open>Data model of \<open>sql_utils.ts\<close>\<close>

text \<open>
  The interfaces of the module become records. An optional property (\<open>dataType?\<close>,
  \<open>isNullable?\<close>, \<open>data_type: string | undefined\<close>) is an \<open>option\<close>, with \<open>None\<close> for
  \<open>undefined\<close>. JavaScript strings are \<open>string\<close>.
\<close>

record RawResultTableAndColumn =
  table_name :: string
  column_name :: string
  data_type :: "string option"
  is_nullable :: string

record SqlColumn =
  columnName :: string
  dataType :: "string option"
  isNullable :: "bool option"

record SqlTable =
  tableName :: string
  columns :: "SqlColumn list"

text \<open>
  Errors are values. \<open>Error msg\<close> is an error object this module creates itself with
  \<open>throw new Error(msg)\<close>; \<open>QueryFailed e\<close> is a rejection of \<open>appDataSource.query\<close> that
  the module lets through unchanged, \<open>e\<close> being the driver's own error.
\<close>

datatype error = Error string | QueryFailed string

text \<open>
  The part of \<open>DataSource\<close> the module reads: \<open>options.type\<close> (here \<open>db_type\<close>),
  \<open>options.database\<close> and the method \<open>query\<close>. The method is typed \<open>Promise<any>\<close>, so the
  type of its reply is a parameter, fixed by each caller; a rejected promise is \<open>Inl\<close> of
  the driver's error. In this record the executor is given by the outcome it has for
  each SQL text; \<open>EffectfulDataSource\<close> below is the data source whose executor acts on a
  world.
\<close>

record DataSourceOptions =
  db_type :: string
  database :: "string option"

record 'r DataSource =
  options :: DataSourceOptions
  query :: "string \<Rightarrow> string + 'r"

section \<open>Checking that named tables exist\<close>

text \<open>
  The loop of \<open>verifyListTablesExistInDatabase\<close> over \<open>listTables\<close>: the first name that
  \<open>onlyTableNames\<close> does not include throws, and nothing after it is looked at.
\<close>

fun verifyLoop :: "string list \<Rightarrow> string list \<Rightarrow> string \<Rightarrow> error + unit" where
  "verifyLoop onlyTableNames [] errorPrefixMsg = Inr ()"
| "verifyLoop onlyTableNames (name # rest) errorPrefixMsg =
     (if name \<notin> set onlyTableNames
      then Inl (Error (errorPrefixMsg @ '' the table '' @ name
                         @ '' was not found in the database''))
      else verifyLoop onlyTableNames rest errorPrefixMsg)"

definition verifyListTablesExistInDatabase ::
    "SqlTable list \<Rightarrow> string list \<Rightarrow> string \<Rightarrow> error + unit" where
  "verifyListTablesExistInDatabase tablesFromDatabase listTables errorPrefixMsg =
     (let onlyTableNames = map tableName tablesFromDatabase
      in if length listTables > 0
         then verifyLoop onlyTableNames listTables errorPrefixMsg
         else Inr ())"

definition verifyIncludeTablesExistInDatabase :: "SqlTable list \<Rightarrow> string list \<Rightarrow> error + unit" where
  "verifyIncludeTablesExistInDatabase tablesFromDatabase includeTables =
     verifyListTablesExistInDatabase tablesFromDatabase includeTables
       ''Include tables not found in database:''"

definition verifyIgnoreTablesExistInDatabase :: "SqlTable list \<Rightarrow> string list \<Rightarrow> error + unit" where
  "verifyIgnoreTablesExistInDatabase tablesFromDatabase ignoreTables =
     verifyListTablesExistInDatabase tablesFromDatabase ignoreTables
       ''Ignore tables not found in database:''"

section \<open>Grouping raw catalog rows into tables\<close>

text \<open>
  \<open>Array.prototype.find\<close> returns a reference to the first table with the wanted name and
  \<open>currentTable.columns.push\<close> mutates that object inside the array. \<open>pushColumnAtFound\<close> is
  this update of the first match; the caller has checked with \<open>find\<close> that there is one.
\<close>

fun pushColumnAtFound :: "string \<Rightarrow> SqlColumn \<Rightarrow> SqlTable list \<Rightarrow> SqlTable list" where
  "pushColumnAtFound name newColumn [] = []"
| "pushColumnAtFound name newColumn (oneTable # rest) =
     (if tableName oneTable = name
      then oneTable\<lparr>columns := columns oneTable @ [newColumn]\<rparr> # rest
      else oneTable # pushColumnAtFound name newColumn rest)"

text \<open>The column object built from one raw row, and the body of the loop over the rows.\<close>

definition sqlColumn :: "RawResultTableAndColumn \<Rightarrow> SqlColumn" where
  "sqlColumn oneResult =
     \<lparr>columnName = column_name oneResult,
      dataType = data_type oneResult,
      isNullable = Some (is_nullable oneResult = ''YES'')\<rparr>"

definition formatStep :: "SqlTable list \<Rightarrow> RawResultTableAndColumn \<Rightarrow> SqlTable list" where
  "formatStep sqlTable oneResult =
     (case find (\<lambda>oneTable. tableName oneTable = table_name oneResult) sqlTable of
        Some currentTable \<Rightarrow>
          pushColumnAtFound (table_name oneResult) (sqlColumn oneResult) sqlTable
      | None \<Rightarrow>
          sqlTable @ [\<lparr>tableName = table_name oneResult, columns = [sqlColumn oneResult]\<rparr>])"

definition formatToSqlTable :: "RawResultTableAndColumn list \<Rightarrow> SqlTable list" where
  "formatToSqlTable rawResultsTableAndColumn = foldl formatStep [] rawResultsTableAndColumn"

text \<open>
  The specification's reading of the table order: the names of a list in the order of
  their first occurrence, every later repetition dropped.
\<close>

fun firstOccurrences :: "'a list \<Rightarrow> 'a list" where
  "firstOccurrences [] = []"
| "firstOccurrences (x # xs) = x # filter (\<lambda>y. y \<noteq> x) (firstOccurrences xs)"

section \<open>Listing tables and columns\<close>

text \<open>
  A template literal prints an absent optional string as the text \<open>undefined\<close>.
\<close>

definition templateOfOptional :: "string option \<Rightarrow> string" where
  "templateOfOptional v = (case v of None \<Rightarrow> ''undefined'' | Some s \<Rightarrow> s)"

text \<open>The three catalog queries, as the source concatenates them.\<close>

definition postgresSql :: string where
  \<open>postgresSql =
     ''SELECT\<newline>'' @
     ''    t.table_name,\<newline>'' @
     ''    c.*\<newline>'' @
     ''FROM\<newline>'' @
     ''    information_schema.tables t\<newline>'' @
     ''        JOIN information_schema.columns c\<newline>'' @
     ''             ON t.table_name = c.table_name\<newline>'' @
     ''WHERE\<newline>'' @
     ''        t.table_schema = 'public'\<newline>'' @
     ''ORDER BY\<newline>'' @
     ''    t.table_name,\<newline>'' @
     ''    c.ordinal_position;''\<close>

definition sqliteSql :: string where
  \<open>sqliteSql =
     ''SELECT \<newline>'' @
     ''   m.name AS table_name,\<newline>'' @
     ''   p.name AS column_name,\<newline>'' @
     ''   p.type AS data_type,\<newline>'' @
     ''   CASE \<newline>'' @
     ''      WHEN p."notnull" = 0 THEN 'YES' \<newline>'' @
     ''      ELSE 'NO' \<newline>'' @
     ''   END AS is_nullable \<newline>'' @
     ''FROM \<newline>'' @
     ''   sqlite_master m \<newline>'' @
     ''JOIN \<newline>'' @
     ''   pragma_table_info(m.name) p \<newline>'' @
     ''WHERE \<newline>'' @
     ''   m.type = 'table' AND \<newline>'' @
     ''   m.name NOT LIKE 'sqlite_%';\<newline>''\<close>

definition mysqlSql :: "string option \<Rightarrow> string" where
  \<open>mysqlSql optionsDatabase =
     ''SELECT '' @
     ''TABLE_NAME AS table_name, '' @
     ''COLUMN_NAME AS column_name, '' @
     ''DATA_TYPE AS data_type, '' @
     ''IS_NULLABLE AS is_nullable '' @
     ''FROM INFORMATION_SCHEMA.COLUMNS '' @
     ''WHERE TABLE_SCHEMA = '' @ [CHR 0x27] @ templateOfOptional optionsDatabase @ [CHR 0x27] @ '';''\<close>

text \<open>
  \<open>await appDataSource.query(sql)\<close> followed by \<open>formatToSqlTable(rep)\<close>: a rejection is not
  caught and leaves the function as it came.
\<close>

definition queryAndFormat ::
    "(RawResultTableAndColumn list) DataSource \<Rightarrow> string \<Rightarrow> error + SqlTable list" where
  "queryAndFormat appDataSource sql =
     (case query appDataSource sql of
        Inl e \<Rightarrow> Inl (QueryFailed e)
      | Inr rep \<Rightarrow> Inr (formatToSqlTable rep))"

definition getTableAndColumnsName ::
    "(RawResultTableAndColumn list) DataSource \<Rightarrow> error + SqlTable list" where
  "getTableAndColumnsName appDataSource =
     (if db_type (options appDataSource) = ''postgres''
      then queryAndFormat appDataSource postgresSql
      else if db_type (options appDataSource) = ''sqlite''
      then queryAndFormat appDataSource sqliteSql
      else if db_type (options appDataSource) = ''mysql''
      then queryAndFormat appDataSource (mysqlSql (database (options appDataSource)))
      else Inl (Error ''Database type not implemented yet''))"

section \<open>Rendering the table information\<close>

text \<open>
  A JavaScript number is, in this model, a safe integer: an integer between
  \<open>-(2^53 - 1)\<close> and \<open>2^53 - 1\<close>, which a number represents exactly and which
  JavaScript prints in plain decimal notation. This is the type of \<open>nbSampleRow\<close> and of
  the numbers in sample rows; fractions, \<open>NaN\<close>, the infinities and the integers beyond
  the safe range are not values of the model.
\<close>

typedef safe_integer = "{i :: int. - 9007199254740991 \<le> i \<and> i \<le> 9007199254740991}"
  morphisms integerValue SafeInteger
  by (rule exI [of _ 0]) simp

text \<open>
  A sample row is an object, the list of its properties in enumeration order, which is the
  order \<open>Object.values\<close> follows. The values it holds are the primitive ones; rows that
  are not objects and values that are objects are left out.
\<close>

datatype js_value = JUndefined | JNull | JBool bool | JNumber safe_integer | JString string

type_synonym js_object = "(string \<times> js_value) list"

definition digitChar :: "nat \<Rightarrow> char" where
  "digitChar d = ''0123456789'' ! d"

function natToString :: "nat \<Rightarrow> string" where
  "natToString n =
     (if n < 10 then [digitChar n] else natToString (n div 10) @ [digitChar (n mod 10)])"
  by pat_completeness auto
termination
  by (relation "measure id") auto

declare natToString.simps [simp del]

text \<open>The decimal text of a number, as a template literal prints it.\<close>

definition numberToString :: "safe_integer \<Rightarrow> string" where
  "numberToString n =
     (if integerValue n < 0 then ''-'' @ natToString (nat (- integerValue n))
      else natToString (nat (integerValue n)))"

fun toString :: "js_value \<Rightarrow> string" where
  "toString JUndefined = ''undefined''"
| "toString JNull = ''null''"
| "toString (JBool b) = (if b then ''true'' else ''false'')"
| "toString (JNumber i) = numberToString i"
| "toString (JString s) = s"

definition Object_values :: "js_object \<Rightarrow> js_value list" where
  "Object_values oneRow = map snd oneRow"

text \<open>
  What the sample query resolves to is typed \<open>unknown\<close>: either an array of row objects or
  anything else (\<open>NoArray\<close>: a falsy value or a value that \<open>Array.isArray\<close> rejects).
\<close>

datatype rawResult = NoArray | RowArray "js_object list"

definition formatSqlResponseToSimpleTableString :: "rawResult \<Rightarrow> string" where
  "formatSqlResponseToSimpleTableString rawResult =
     (case rawResult of
        NoArray \<Rightarrow> ''''
      | RowArray rows \<Rightarrow>
          if length rows = 0 then ''''
          else foldl (\<lambda>globalString oneRow.
                  globalString
                  @ foldl (\<lambda>completeString columnValue.
                             completeString @ '' '' @ toString columnValue)
                          '''' (Object_values oneRow)
                  @ ''\<newline>'')
                '''' rows)"

text \<open>
  The loop over \<open>currentTable.columns.entries()\<close>, \<open>key\<close> being the index of the column
  and \<open>declaration\<close> the value of \<open>sqlCreateTableQuery\<close> so far. An absent \<open>isNullable\<close> is falsy.
\<close>

fun createColumnsLoop :: "nat \<Rightarrow> SqlColumn list \<Rightarrow> string \<Rightarrow> string" where
  "createColumnsLoop key [] declaration = declaration"
| "createColumnsLoop key (currentColumn # rest) declaration =
     createColumnsLoop (Suc key) rest
       ((if key > 0 then declaration @ '', '' else declaration)
        @ columnName currentColumn @ '' '' @ templateOfOptional (dataType currentColumn) @ '' ''
        @ (if isNullable currentColumn = Some True then '''' else ''NOT NULL''))"

definition sqlCreateTableQuery :: "SqlTable \<Rightarrow> string" where
  "sqlCreateTableQuery currentTable =
     createColumnsLoop 0 (columns currentTable)
       (''CREATE TABLE '' @ tableName currentTable @ '' (\<newline>'')
     @ '') \<newline>''"

definition sqlSelectInfoQuery :: "DataSourceOptions \<Rightarrow> safe_integer \<Rightarrow> SqlTable \<Rightarrow> string" where
  \<open>sqlSelectInfoQuery opts nbSampleRow currentTable =
     (if db_type opts = ''mysql''
      then ''SELECT * FROM `'' @ tableName currentTable @ ''` LIMIT ''
           @ numberToString nbSampleRow @ '';\<newline>''
      else ''SELECT * FROM "'' @ tableName currentTable @ ''" LIMIT ''
           @ numberToString nbSampleRow @ '';\<newline>'')\<close>

definition columnNamesConcatString :: "SqlTable \<Rightarrow> string" where
  "columnNamesConcatString currentTable =
     foldl (\<lambda>completeString column. completeString @ '' '' @ columnName column)
           '''' (columns currentTable)
     @ ''\<newline>''"

text \<open>
  The \<open>try\<close> block: \<open>sample\<close> starts empty and stays so when the query is rejected (the
  \<open>catch\<close> only prints the error to the console, which the model leaves out).
\<close>

definition sample :: "rawResult DataSource \<Rightarrow> string \<Rightarrow> string" where
  "sample appDataSource sql =
     (case query appDataSource sql of
        Inl error \<Rightarrow> ''''
      | Inr infoObjectResult \<Rightarrow> formatSqlResponseToSimpleTableString infoObjectResult)"

definition tableInfo :: "rawResult DataSource \<Rightarrow> safe_integer \<Rightarrow> SqlTable \<Rightarrow> string" where
  "tableInfo appDataSource nbSampleRow currentTable =
     sqlCreateTableQuery currentTable
     @ sqlSelectInfoQuery (options appDataSource) nbSampleRow currentTable
     @ columnNamesConcatString currentTable
     @ sample appDataSource (sqlSelectInfoQuery (options appDataSource) nbSampleRow currentTable)"

definition generateTableInfoFromTables ::
    "SqlTable list option \<Rightarrow> rawResult DataSource \<Rightarrow> safe_integer \<Rightarrow> string" where
  "generateTableInfoFromTables tables appDataSource nbSampleRow =
     (case tables of
        None \<Rightarrow> ''''
      | Some ts \<Rightarrow>
          foldl (\<lambda>globalString currentTable.
                   globalString @ tableInfo appDataSource nbSampleRow currentTable)
                '''' ts)"

text \<open>
  The same function with the effect of its awaits written out. The executor now acts on a
  world (the database, the connection, whatever it keeps): a query is run in a world and
  returns its outcome and the world it leaves. The function has no state of its own
  beyond the local \<open>globalString\<close>; it runs the sample queries one after the other, in
  the order of the tables, each in the world the one before has left, and hands back the
  last world with its result.
\<close>

record 'w EffectfulDataSource =
  effOptions :: DataSourceOptions
  effQuery :: "string \<Rightarrow> 'w \<Rightarrow> (string + rawResult) \<times> 'w"

fun tablesLoop ::
    "'w EffectfulDataSource \<Rightarrow> safe_integer \<Rightarrow> SqlTable list \<Rightarrow> string \<Rightarrow> 'w \<Rightarrow> string \<times> 'w" where
  "tablesLoop appDataSource nbSampleRow [] globalString world = (globalString, world)"
| "tablesLoop appDataSource nbSampleRow (currentTable # rest) globalString world =
     (case effQuery appDataSource
             (sqlSelectInfoQuery (effOptions appDataSource) nbSampleRow currentTable) world of
        (outcome, world') \<Rightarrow>
          tablesLoop appDataSource nbSampleRow rest
            (globalString
             @ sqlCreateTableQuery currentTable
             @ sqlSelectInfoQuery (effOptions appDataSource) nbSampleRow currentTable
             @ columnNamesConcatString currentTable
             @ (case outcome of
                  Inl error \<Rightarrow> ''''
                | Inr infoObjectResult \<Rightarrow> formatSqlResponseToSimpleTableString infoObjectResult))
            world')"

definition generateTableInfoFromTablesRun ::
    "SqlTable list option \<Rightarrow> 'w EffectfulDataSource \<Rightarrow> safe_integer \<Rightarrow> 'w \<Rightarrow> string \<times> 'w" where
  "generateTableInfoFromTablesRun tables appDataSource nbSampleRow world =
     (case tables of
        None \<Rightarrow> ('''', world)
      | Some ts \<Rightarrow> tablesLoop appDataSource nbSampleRow ts '''' world)"

section \<open>Reference definitions and example inputs\<close>

text \<open>
  The specification's reading of the grouping: the table of a name holds the columns of
  the rows that bear the name, in the order of the rows.
\<close>

definition grouped :: "RawResultTableAndColumn list \<Rightarrow> string \<Rightarrow> SqlTable" where
  "grouped rows name =
     \<lparr>tableName = name, columns = map sqlColumn (filter (\<lambda>r. table_name r = name) rows)\<rparr>"

text \<open>
  Reading a decimal numeral: digits only, no leading zero except in the numeral \<open>0\<close>
  itself, with a minus sign in front for a negative value and no negative zero. The count
  that a statement shows is the numeral that reads back as the count.
\<close>

definition digitValue :: "char \<Rightarrow> nat option" where
  "digitValue c = map_of (zip ''0123456789'' [0, 1, 2, 3, 4, 5, 6, 7, 8, 9]) c"

fun readDigits :: "nat \<Rightarrow> string \<Rightarrow> nat option" where
  "readDigits acc [] = Some acc"
| "readDigits acc (c # cs) =
     (case digitValue c of None \<Rightarrow> None | Some d \<Rightarrow> readDigits (10 * acc + d) cs)"

definition readNatural :: "string \<Rightarrow> nat option" where
  "readNatural s =
     (if s = [] \<or> (length s > 1 \<and> hd s = CHR ''0'') then None else readDigits 0 s)"

definition readInteger :: "string \<Rightarrow> int option" where
  "readInteger s =
     (case s of
        [] \<Rightarrow> None
      | c # cs \<Rightarrow>
          if c = CHR ''-''
          then (case readNatural cs of
                  None \<Rightarrow> None
                | Some m \<Rightarrow> if m = 0 then None else Some (- int m))
          else map_option int (readNatural s))"

text \<open>The rows of the specification's normalisation example and the snapshot it expects.\<close>

definition exampleRows :: "RawResultTableAndColumn list" where
  "exampleRows =
     [\<lparr>table_name = ''T1'', column_name = ''a'', data_type = Some ''int'', is_nullable = ''NO''\<rparr>,
      \<lparr>table_name = ''T1'', column_name = ''b'', data_type = Some ''text'', is_nullable = ''YES''\<rparr>,
      \<lparr>table_name = ''T2'', column_name = ''c'', data_type = Some ''int'', is_nullable = ''NO''\<rparr>]"

definition exampleSnapshot :: "SqlTable list" where
  "exampleSnapshot =
     [\<lparr>tableName = ''T1'', columns =
         [\<lparr>columnName = ''a'', dataType = Some ''int'', isNullable = Some False\<rparr>,
          \<lparr>columnName = ''b'', dataType = Some ''text'', isNullable = Some True\<rparr>]\<rparr>,
      \<lparr>tableName = ''T2'', columns =
         [\<lparr>columnName = ''c'', dataType = Some ''int'', isNullable = Some False\<rparr>]\<rparr>]"

text \<open>
  Rows in which the two tables alternate, one of them without a data type, and the
  table \<open>T1\<close> that their normalisation holds.
\<close>

definition interleavedRows :: "RawResultTableAndColumn list" where
  "interleavedRows =
     [\<lparr>table_name = ''T1'', column_name = ''a'', data_type = Some ''int'', is_nullable = ''NO''\<rparr>,
      \<lparr>table_name = ''T2'', column_name = ''c'', data_type = None, is_nullable = ''NO''\<rparr>,
      \<lparr>table_name = ''T1'', column_name = ''b'', data_type = Some ''text'', is_nullable = ''YES''\<rparr>]"

definition interleavedT1 :: SqlTable where
  "interleavedT1 =
     \<lparr>tableName = ''T1'', columns =
        [\<lparr>columnName = ''a'', dataType = Some ''int'', isNullable = Some False\<rparr>,
         \<lparr>columnName = ''b'', dataType = Some ''text'', isNullable = Some True\<rparr>]\<rparr>"

text \<open>
  The table of the specification's end-to-end example, the rows its executor returns, and
  a data source of a dialect other than mysql whose executor returns them for every query.
\<close>

definition usersTable :: SqlTable where
  "usersTable = \<lparr>tableName = ''Users'', columns =
     [\<lparr>columnName = ''id'', dataType = Some ''int'', isNullable = Some False\<rparr>,
      \<lparr>columnName = ''name'', dataType = Some ''text'', isNullable = Some True\<rparr>]\<rparr>"

definition usersRows :: "js_object list" where
  "usersRows = [[(''id'', JNumber (SafeInteger 1)), (''name'', JString ''a'')],
                [(''id'', JNumber (SafeInteger 2)), (''name'', JString ''b'')]]"

definition usersDataSource :: "rawResult DataSource" where
  "usersDataSource =
     \<lparr>options = \<lparr>db_type = ''postgres'', database = None\<rparr>,
      query = (\<lambda>sql. Inr (RowArray usersRows))\<rparr>"

text \<open>
  A second table, whose only column has neither a data type nor a nullability, and three
  more data sources for sample queries: one whose executor knows the table \<open>Users\<close> only
  and rejects every other query, and one of the mysql dialect.
\<close>

definition ordersTable :: SqlTable where
  "ordersTable = \<lparr>tableName = ''Orders'', columns =
     [\<lparr>columnName = ''total'', dataType = None, isNullable = None\<rparr>]\<rparr>"

definition usersOnlyDataSource :: "rawResult DataSource" where
  \<open>usersOnlyDataSource =
     \<lparr>options = \<lparr>db_type = ''postgres'', database = None\<rparr>,
      query = (\<lambda>sql. if sql = ''SELECT * FROM "Users" LIMIT 2;\<newline>''
                     then Inr (RowArray usersRows) else Inl ''relation does not exist'')\<rparr>\<close>

definition mysqlDataSource :: "rawResult DataSource" where
  "mysqlDataSource =
     \<lparr>options = \<lparr>db_type = ''mysql'', database = Some ''shop''\<rparr>,
      query = (\<lambda>sql. Inr (RowArray usersRows))\<rparr>"



definition closingDataSource :: "nat EffectfulDataSource" where
  "closingDataSource =
     \<lparr>effOptions = \<lparr>db_type = ''postgres'', database = None\<rparr>,
      effQuery = (\<lambda>sql count. (if count = 0 then Inr (RowArray usersRows)
                                else Inl ''connection closed'', Suc count))\<rparr>"

text \<open>
  Data sources for the catalog query: one of a dialect the module does not know, one of
  the sqlite dialect (both answer with the example rows), and one whose executor rejects
  every query with the text of the query as its error, which shows the SQL that was sent.
\<close>

definition oracleDataSource :: "(RawResultTableAndColumn list) DataSource" where
  "oracleDataSource =
     \<lparr>options = \<lparr>db_type = ''oracle'', database = None\<rparr>,
      query = (\<lambda>sql. Inr exampleRows)\<rparr>"

definition sqliteDataSource :: "(RawResultTableAndColumn list) DataSource" where
  "sqliteDataSource =
     \<lparr>options = \<lparr>db_type = ''sqlite'', database = None\<rparr>,
      query = (\<lambda>sql. Inr exampleRows)\<rparr>"

definition echoDataSource :: "string \<Rightarrow> string option \<Rightarrow> (RawResultTableAndColumn list) DataSource" where
  "echoDataSource dialect db =
     \<lparr>options = \<lparr>db_type = dialect, database = db\<rparr>, query = (\<lambda>sql. Inl sql)\<rparr>"

text \<open>
  The specification's words \<open>reference to internal/system catalog objects\<close>, read dialect
  by dialect: the catalog objects of a dialect are the relations in which it keeps its
  schema, and a query refers to one when its text contains the name.
\<close>

definition systemCatalogObjects :: "string \<Rightarrow> string list" where
  "systemCatalogObjects dialect =
     (if dialect = ''postgres''
      then [''information_schema.tables'', ''information_schema.columns'']
      else if dialect = ''sqlite'' then [''sqlite_master'', ''pragma_table_info'']
      else if dialect = ''mysql'' then [''INFORMATION_SCHEMA.COLUMNS'']
      else [])"

definition referencesSystemCatalog :: "string \<Rightarrow> string \<Rightarrow> bool" where
  "referencesSystemCatalog dialect sql =
     list_ex (\<lambda>name. sublist name sql) (systemCatalogObjects dialect)"

section \<open>Facts about the table check\<close>

lemma verifyLoop_find:
  "verifyLoop ns names p =
     (case find (\<lambda>n. n \<notin> set ns) names of
        None \<Rightarrow> Inr ()
      | Some n \<Rightarrow> Inl (Error (p @ '' the table '' @ n @ '' was not found in the database'')))"
  by (induction names) auto

lemma verifyLoop_ok_iff: "verifyLoop ns names p = Inr () \<longleftrightarrow> set names \<subseteq> set ns"
  by (induction names) auto

lemma verifyLoop_missing:
  "\<not> set names \<subseteq> set ns \<Longrightarrow>
     \<exists>n \<in> set names. n \<notin> set ns \<and>
       verifyLoop ns names p = Inl (Error (p @ '' the table '' @ n @ '' was not found in the database''))"
  by (induction names) auto

text \<open>
  Claim C4. \<open>verifyListTablesExistInDatabase\<close> never fails on an empty list of names. On any
  list it succeeds, doing nothing, exactly when every name is the name of a table of the
  snapshot; otherwise it fails for a name of the list that the snapshot lacks, with the
  message made of the context label, \<open>the table\<close>, the name and
  \<open>was not found in the database\<close>.
\<close>

theorem verifyListTablesExistInDatabase_outcome:
  "verifyListTablesExistInDatabase tablesFromDatabase [] errorPrefixMsg = Inr () \<and>
   (verifyListTablesExistInDatabase tablesFromDatabase listTables errorPrefixMsg = Inr ()
      \<longleftrightarrow> set listTables \<subseteq> tableName ` set tablesFromDatabase) \<and>
   (\<not> set listTables \<subseteq> tableName ` set tablesFromDatabase \<longrightarrow>
      (\<exists>name \<in> set listTables. name \<notin> tableName ` set tablesFromDatabase \<and>
         verifyListTablesExistInDatabase tablesFromDatabase listTables errorPrefixMsg =
           Inl (Error (errorPrefixMsg @ '' the table '' @ name @ '' was not found in the database''))))"
proof -
  let ?ns = "map tableName tablesFromDatabase"
  have unfold: "verifyListTablesExistInDatabase tablesFromDatabase listTables errorPrefixMsg =
      verifyLoop ?ns listTables errorPrefixMsg"
    by (cases listTables) (simp_all add: verifyListTablesExistInDatabase_def)
  have empty: "verifyListTablesExistInDatabase tablesFromDatabase [] errorPrefixMsg = Inr ()"
    by (simp add: verifyListTablesExistInDatabase_def)
  have ok: "verifyListTablesExistInDatabase tablesFromDatabase listTables errorPrefixMsg = Inr ()
      \<longleftrightarrow> set listTables \<subseteq> tableName ` set tablesFromDatabase"
    using verifyLoop_ok_iff [of ?ns listTables errorPrefixMsg] by (simp add: unfold)
  have miss: "\<not> set listTables \<subseteq> tableName ` set tablesFromDatabase \<longrightarrow>
      (\<exists>name \<in> set listTables. name \<notin> tableName ` set tablesFromDatabase \<and>
         verifyListTablesExistInDatabase tablesFromDatabase listTables errorPrefixMsg =
           Inl (Error (errorPrefixMsg @ '' the table '' @ name @ '' was not found in the database'')))"
    using verifyLoop_missing [of listTables ?ns errorPrefixMsg] by (simp add: unfold)
  from empty ok miss show ?thesis by blast
qed

theorem verifyListTablesExistInDatabase_outcome_witness:
  "verifyListTablesExistInDatabase [usersTable] [''Users''] ''Include tables not found in database:'' = Inr () \<and>
   \<not> set [''Users'', ''Orders''] \<subseteq> tableName ` set [usersTable] \<and>
   verifyListTablesExistInDatabase [usersTable] [''Users'', ''Orders'']
       ''Include tables not found in database:'' =
     Inl (Error ''Include tables not found in database: the table Orders was not found in the database'')"
  using verifyListTablesExistInDatabase_outcome [of "[usersTable]" "''Include tables not found in database:''" "[''Users'', ''Orders'']"]
    verifyListTablesExistInDatabase_outcome [of "[usersTable]" "''Include tables not found in database:''" "[''Users'']"]
  by (simp add: usersTable_def)

section \<open>Facts about the grouping of raw rows\<close>

lemma firstOccurrences_set: "set (firstOccurrences xs) = set xs"
  by (induction xs) auto

lemma firstOccurrences_distinct: "distinct (firstOccurrences xs)"
  by (induction xs) (auto simp: firstOccurrences_set)

lemma firstOccurrences_snoc:
  "firstOccurrences (xs @ [x]) =
     (if x \<in> set xs then firstOccurrences xs else firstOccurrences xs @ [x])"
  by (induction xs) auto

lemma find_tableName_None:
  "name \<notin> tableName ` set ts \<Longrightarrow> find (\<lambda>t. tableName t = name) ts = None"
  by (induction ts) auto

lemma find_tableName_Some:
  "name \<in> tableName ` set ts \<Longrightarrow> \<exists>t. find (\<lambda>t. tableName t = name) ts = Some t"
  by (induction ts) auto

lemma pushColumnAtFound_distinct:
  "distinct (map tableName ts) \<Longrightarrow>
     pushColumnAtFound name c ts =
       map (\<lambda>t. if tableName t = name then t\<lparr>columns := columns t @ [c]\<rparr> else t) ts"
proof (induction ts)
  case Nil
  show ?case by simp
next
  case (Cons t ts)
  show ?case
  proof (cases "tableName t = name")
    case True
    with Cons.prems have "\<forall>u \<in> set ts. tableName u \<noteq> name" by (auto simp: image_iff)
    then have "map (\<lambda>t. if tableName t = name then t\<lparr>columns := columns t @ [c]\<rparr> else t) ts = ts"
      by (simp add: map_idI)
    with True show ?thesis by simp
  next
    case False
    with Cons show ?thesis by simp
  qed
qed
lemma formatToSqlTable_snoc:
  "formatToSqlTable (rows @ [r]) = formatStep (formatToSqlTable rows) r"
  by (simp add: formatToSqlTable_def)

lemma formatToSqlTable_grouped:
  "formatToSqlTable rows = map (grouped rows) (firstOccurrences (map table_name rows))"
proof (induction rows rule: rev_induct)
  case Nil
  show ?case by (simp add: formatToSqlTable_def)
next
  case (snoc r rows)
  let ?names = "firstOccurrences (map table_name rows)"
  have names: "tableName ` set (map (grouped rows) ?names) = table_name ` set rows"
    by (force simp: firstOccurrences_set grouped_def image_image)
  have dist: "distinct (map tableName (map (grouped rows) ?names))"
    by (simp add: o_def grouped_def firstOccurrences_distinct)
  show ?case
  proof (cases "table_name r \<in> table_name ` set rows")
    case True
    then obtain t where t: "find (\<lambda>t. tableName t = table_name r) (map (grouped rows) ?names) = Some t"
      using find_tableName_Some [of "table_name r" "map (grouped rows) ?names"] names by auto
    have "formatToSqlTable (rows @ [r]) =
        pushColumnAtFound (table_name r) (sqlColumn r) (map (grouped rows) ?names)"
      by (simp add: formatToSqlTable_snoc snoc.IH formatStep_def t)
    also have "\<dots> = map (\<lambda>t. if tableName t = table_name r
                              then t\<lparr>columns := columns t @ [sqlColumn r]\<rparr> else t)
                       (map (grouped rows) ?names)"
      by (rule pushColumnAtFound_distinct [OF dist])
    also have "\<dots> = map (grouped (rows @ [r])) ?names"
      by (simp add: grouped_def)
    finally show ?thesis
      using True by (simp add: firstOccurrences_snoc)
  next
    case False
    then have none: "find (\<lambda>t. tableName t = table_name r) (map (grouped rows) ?names) = None"
      using find_tableName_None [of "table_name r" "map (grouped rows) ?names"] names by auto
    have empty: "filter (\<lambda>q. table_name q = table_name r) rows = []"
      using False by (auto simp: filter_empty_conv image_iff)
    have same: "map (grouped (rows @ [r])) ?names = map (grouped rows) ?names"
      using False by (auto simp: grouped_def firstOccurrences_set)
    have "formatToSqlTable (rows @ [r]) =
        map (grouped rows) ?names @ [\<lparr>tableName = table_name r, columns = [sqlColumn r]\<rparr>]"
      by (simp add: formatToSqlTable_snoc snoc.IH formatStep_def none)
    also have "\<dots> = map (grouped (rows @ [r])) (?names @ [table_name r])"
      by (simp add: same) (simp add: grouped_def empty)
    finally show ?thesis
      using False by (simp add: firstOccurrences_snoc)
  qed
qed

lemma formatToSqlTable_exampleRows: "formatToSqlTable exampleRows = exampleSnapshot"
  by (simp add: exampleRows_def exampleSnapshot_def formatToSqlTable_def formatStep_def sqlColumn_def)

lemma formatToSqlTable_columns:
  "t \<in> set (formatToSqlTable rows) \<Longrightarrow>
     columns t = map sqlColumn (filter (\<lambda>r. table_name r = tableName t) rows)"
  by (auto simp: formatToSqlTable_grouped grouped_def)

lemma formatToSqlTable_names:
  "map tableName (formatToSqlTable rows) = firstOccurrences (map table_name rows)"
  by (simp add: formatToSqlTable_grouped grouped_def o_def)

text \<open>
  Claim C5. The rows \<open>(T1,a,int,NO)\<close>, \<open>(T1,b,text,YES)\<close>, \<open>(T2,c,int,NO)\<close> are
  normalised to the two tables \<open>T1\<close> with the columns \<open>a\<close> (int, not nullable) and \<open>b\<close>
  (text, nullable) and \<open>T2\<close> with the column \<open>c\<close> (int, not nullable), in this order. For
  any rows, the columns of a table of the result have, one by one, \<open>isNullable\<close> true
  exactly when the \<open>is_nullable\<close> field of their row is the string \<open>YES\<close>.
\<close>

theorem formatToSqlTable_example:
  "formatToSqlTable exampleRows = exampleSnapshot \<and>
   (\<forall>t \<in> set (formatToSqlTable rows).
      map isNullable (columns t) =
        map (\<lambda>r. Some (is_nullable r = ''YES'')) (filter (\<lambda>r. table_name r = tableName t) rows))"
  by (simp add: formatToSqlTable_exampleRows formatToSqlTable_columns sqlColumn_def o_def)

theorem formatToSqlTable_example_witness:
  "formatToSqlTable exampleRows = exampleSnapshot \<and>
   interleavedT1 \<in> set (formatToSqlTable interleavedRows) \<and>
   map is_nullable (filter (\<lambda>r. table_name r = tableName interleavedT1) interleavedRows)
     = [''NO'', ''YES''] \<and>
   map isNullable (columns interleavedT1) = [Some False, Some True]"
proof -
  have member: "interleavedT1 \<in> set (formatToSqlTable interleavedRows)"
    by (simp add: interleavedRows_def interleavedT1_def formatToSqlTable_def formatStep_def
        sqlColumn_def)
  have rows: "map is_nullable
      (filter (\<lambda>r. table_name r = tableName interleavedT1) interleavedRows) = [''NO'', ''YES'']"
    by (simp add: interleavedRows_def interleavedT1_def)
  from formatToSqlTable_example [of interleavedRows] member
  have "map isNullable (columns interleavedT1) =
      map (\<lambda>r. Some (is_nullable r = ''YES''))
        (filter (\<lambda>r. table_name r = tableName interleavedT1) interleavedRows)"
    by blast
  then have "map isNullable (columns interleavedT1) = [Some False, Some True]"
    by (simp add: interleavedRows_def interleavedT1_def)
  with member rows formatToSqlTable_example [of interleavedRows] show ?thesis
    by blast
qed

text \<open>
  Claim C6. For any rows, the tables of the result have pairwise distinct names, they
  stand in the order in which their names first occur in the rows, and the columns of
  each table are those built from the rows bearing its name, in the order of the rows.
\<close>

theorem formatToSqlTable_invariants:
  "distinct (map tableName (formatToSqlTable rows)) \<and>
   map tableName (formatToSqlTable rows) = firstOccurrences (map table_name rows) \<and>
   (\<forall>t \<in> set (formatToSqlTable rows).
      columns t = map sqlColumn (filter (\<lambda>r. table_name r = tableName t) rows))"
  by (simp add: formatToSqlTable_names firstOccurrences_distinct formatToSqlTable_columns)

theorem formatToSqlTable_invariants_witness:
  "map table_name interleavedRows = [''T1'', ''T2'', ''T1''] \<and>
   distinct (map tableName (formatToSqlTable interleavedRows)) \<and>
   map tableName (formatToSqlTable interleavedRows) = [''T1'', ''T2''] \<and>
   interleavedT1 \<in> set (formatToSqlTable interleavedRows) \<and>
   map columnName (columns interleavedT1) = [''a'', ''b'']"
proof -
  have member: "interleavedT1 \<in> set (formatToSqlTable interleavedRows)"
    by (simp add: interleavedRows_def interleavedT1_def formatToSqlTable_def formatStep_def
        sqlColumn_def)
  have names: "map table_name interleavedRows = [''T1'', ''T2'', ''T1'']"
    by (simp add: interleavedRows_def)
  note inv = formatToSqlTable_invariants [of interleavedRows]
  from inv have order: "map tableName (formatToSqlTable interleavedRows) = [''T1'', ''T2'']"
    by (simp add: names)
  from inv member
  have "columns interleavedT1 =
      map sqlColumn (filter (\<lambda>r. table_name r = tableName interleavedT1) interleavedRows)"
    by blast
  then have cols: "map columnName (columns interleavedT1) = [''a'', ''b'']"
    by (simp add: interleavedRows_def interleavedT1_def sqlColumn_def)
  from inv names order member cols show ?thesis
    by blast
qed

section \<open>Facts about the rendering\<close>

lemma foldl_append_concat: "foldl (\<lambda>acc x. acc @ f x) a xs = a @ concat (map f xs)"
  by (induction xs arbitrary: a) auto

lemma generateTableInfoFromTables_concat:
  "generateTableInfoFromTables (Some ts) ds n = concat (map (tableInfo ds n) ts)"
  by (simp add: generateTableInfoFromTables_def foldl_append_concat)

lemma digit_cases: "d < 10 \<Longrightarrow> d \<in> {0, 1, 2, 3, 4, 5, 6, 7, 8, 9 :: nat}"
  by auto

lemma digitValue_digitChar: "d < 10 \<Longrightarrow> digitValue (digitChar d) = Some d"
  using digit_cases [of d] by (auto simp: digitChar_def digitValue_def)

lemma digitChar_zero_iff: "d < 10 \<Longrightarrow> digitChar d = CHR ''0'' \<longleftrightarrow> d = 0"
  using digit_cases [of d] by (auto simp: digitChar_def)

lemma digitChar_not_minus: "d < 10 \<Longrightarrow> digitChar d \<noteq> CHR ''-''"
  using digit_cases [of d] by (auto simp: digitChar_def)

lemma readDigits_append:
  "readDigits acc (xs @ ys) =
     (case readDigits acc xs of None \<Rightarrow> None | Some v \<Rightarrow> readDigits v ys)"
  by (induction xs arbitrary: acc) (auto split: option.splits)

lemma natToString_nonempty: "natToString n \<noteq> []"
  by (subst natToString.simps) simp

lemma readDigits_natToString: "readDigits 0 (natToString n) = Some n"
proof (induction n rule: natToString.induct)
  case (1 n)
  show ?case
  proof (cases "n < 10")
    case True
    then show ?thesis
      by (subst natToString.simps) (simp add: digitValue_digitChar)
  next
    case False
    with 1 have "readDigits 0 (natToString (n div 10)) = Some (n div 10)" by simp
    with False show ?thesis
      by (subst natToString.simps) (simp add: readDigits_append digitValue_digitChar)
  qed
qed

lemma hd_natToString: "hd (natToString n) = CHR ''0'' \<longleftrightarrow> n = 0"
proof (induction n rule: natToString.induct)
  case (1 n)
  show ?case
  proof (cases "n < 10")
    case True
    then show ?thesis
      by (subst natToString.simps) (simp add: digitChar_zero_iff)
  next
    case False
    with 1 have "hd (natToString (n div 10)) = CHR ''0'' \<longleftrightarrow> n div 10 = 0" by simp
    with False show ?thesis
      by (subst natToString.simps) (simp add: natToString_nonempty)
  qed
qed

lemma hd_natToString_not_minus: "hd (natToString n) \<noteq> CHR ''-''"
proof (induction n rule: natToString.induct)
  case (1 n)
  show ?case
  proof (cases "n < 10")
    case True
    then show ?thesis
      by (subst natToString.simps) (simp add: digitChar_not_minus)
  next
    case False
    with 1 have "hd (natToString (n div 10)) \<noteq> CHR ''-''" by simp
    with False show ?thesis
      by (subst natToString.simps) (simp add: natToString_nonempty)
  qed
qed

lemma natToString_zero: "natToString 0 = ''0''"
  by (subst natToString.simps) (simp add: digitChar_def)

lemma readNatural_natToString: "readNatural (natToString n) = Some n"
proof (cases "n = 0")
  case True
  then show ?thesis
    by (simp add: natToString_zero readNatural_def digitValue_def)
next
  case False
  then show ?thesis
    by (simp add: readNatural_def natToString_nonempty hd_natToString readDigits_natToString)
qed

lemma readInteger_numberToString: "readInteger (numberToString n) = Some (integerValue n)"
proof (cases "integerValue n < 0")
  case True
  then have "readNatural (natToString (nat (- integerValue n))) = Some (nat (- integerValue n))"
    by (simp add: readNatural_natToString)
  with True show ?thesis
    by (simp add: numberToString_def readInteger_def)
next
  case False
  obtain c cs where s: "natToString (nat (integerValue n)) = c # cs"
    using natToString_nonempty [of "nat (integerValue n)"] by (cases "natToString (nat (integerValue n))") auto
  have "c \<noteq> CHR ''-''"
    using hd_natToString_not_minus [of "nat (integerValue n)"] s by simp
  with False s readNatural_natToString [of "nat (integerValue n)"] show ?thesis
    by (simp add: numberToString_def readInteger_def)
qed

lemma digitValue_Some: "digitValue c = Some d \<Longrightarrow> d < 10 \<and> c = digitChar d"
  by (auto simp: digitValue_def digitChar_def split: if_splits)

lemma readDigits_snoc_Some:
  "readDigits acc (xs @ [c]) = Some n \<Longrightarrow>
     \<exists>v d. readDigits acc xs = Some v \<and> digitValue c = Some d \<and> n = 10 * v + d"
  by (auto simp: readDigits_append split: option.splits)

lemma readDigits_nonzero:
  "readDigits acc xs = Some v \<Longrightarrow> xs \<noteq> [] \<Longrightarrow> hd xs \<noteq> CHR ''0'' \<Longrightarrow> acc = 0 \<Longrightarrow> v \<noteq> 0"
proof -
  have mono: "readDigits acc xs = Some v \<Longrightarrow> acc \<le> v" for acc xs v
  proof (induction xs arbitrary: acc)
    case Nil
    then show ?case by simp
  next
    case (Cons c cs)
    then show ?case by (fastforce split: option.splits)
  qed
  assume a: "readDigits acc xs = Some v" "xs \<noteq> []" "hd xs \<noteq> CHR ''0''" "acc = 0"
  then obtain c cs where xs: "xs = c # cs" by (cases xs) auto
  with a obtain d where d: "digitValue c = Some d" "readDigits d cs = Some v"
    by (auto split: option.splits)
  from d(1) a(3) xs have "d \<noteq> 0"
    by (auto simp: digitValue_def split: if_splits)
  with mono [OF d(2)] show ?thesis by simp
qed

lemma readNatural_unique: "readNatural s = Some n \<Longrightarrow> s = natToString n"
proof (induction s arbitrary: n rule: rev_induct)
  case Nil
  then show ?case by (simp add: readNatural_def)
next
  case (snoc c xs)
  from snoc.prems have lead: "length (xs @ [c]) > 1 \<longrightarrow> hd (xs @ [c]) \<noteq> CHR ''0''"
    and rd: "readDigits 0 (xs @ [c]) = Some n"
    by (auto simp: readNatural_def split: if_splits)
  from readDigits_snoc_Some [OF rd] obtain v d
    where v: "readDigits 0 xs = Some v" and d: "digitValue c = Some d" and n: "n = 10 * v + d"
    by blast
  from digitValue_Some [OF d] have d10: "d < 10" and c: "c = digitChar d" by simp_all
  show ?case
  proof (cases "xs = []")
    case True
    with v have "v = 0" by simp
    with n d10 have "n < 10" "n = d" by simp_all
    with True c show ?thesis by (subst natToString.simps) simp
  next
    case False
    with lead have hd: "hd xs \<noteq> CHR ''0''" by simp
    from False hd v have "readNatural xs = Some v" by (simp add: readNatural_def)
    then have xs: "xs = natToString v" by (rule snoc.IH)
    from readDigits_nonzero [OF v False hd] have "v \<noteq> 0" by simp
    with n d10 have "\<not> n < 10" "n div 10 = v" "n mod 10 = d" by simp_all
    with xs c show ?thesis by (subst natToString.simps) simp
  qed
qed

lemma readInteger_unique:
  "readInteger s = Some (integerValue n) \<Longrightarrow> s = numberToString n"
proof (cases s)
  case Nil
  assume "readInteger s = Some (integerValue n)"
  with Nil show ?thesis by (simp add: readInteger_def)
next
  case (Cons c cs)
  assume r: "readInteger s = Some (integerValue n)"
  show ?thesis
  proof (cases "c = CHR ''-''")
    case True
    with r Cons obtain m where m: "readNatural cs = Some m" "m \<noteq> 0" "integerValue n = - int m"
      by (auto simp: readInteger_def split: option.splits if_splits)
    from readNatural_unique [OF m(1)] m(2,3) True Cons show ?thesis
      by (simp add: numberToString_def)
  next
    case False
    with r Cons obtain m where m: "readNatural s = Some m" "integerValue n = int m"
      by (fastforce simp: readInteger_def)
    from readNatural_unique [OF m(1)] m(2) show ?thesis
      by (simp add: numberToString_def)
  qed
qed

lemma numberToString_iff:
  "readInteger s = Some (integerValue n) \<longleftrightarrow> s = numberToString n"
  using readInteger_unique [of s n] readInteger_numberToString [of n] by auto

lemma numberToString_1: "numberToString (SafeInteger 1) = ''1''"
  by (simp add: numberToString_def SafeInteger_inverse natToString.simps digitChar_def)

lemma numberToString_2: "numberToString (SafeInteger 2) = ''2''"
  by (simp add: numberToString_def SafeInteger_inverse natToString.simps digitChar_def)

lemma numberToString_25: "numberToString (SafeInteger 25) = ''25''"
  by (simp add: numberToString_def SafeInteger_inverse natToString.simps digitChar_def)

lemma numberToString_1000: "numberToString (SafeInteger 1000) = ''1000''"
  by (simp add: numberToString_def SafeInteger_inverse natToString.simps digitChar_def)

lemma sqlCreateTableQuery_usersTable:
  "sqlCreateTableQuery usersTable = ''CREATE TABLE Users (\<newline>id int NOT NULL, name text ) \<newline>''"
  by (simp add: sqlCreateTableQuery_def usersTable_def templateOfOptional_def)

lemma columnNamesConcatString_usersTable:
  "columnNamesConcatString usersTable = '' id name\<newline>''"
  by (simp add: columnNamesConcatString_def usersTable_def)

lemma sqlSelectInfoQuery_usersTable:
  \<open>db_type opts \<noteq> ''mysql'' \<Longrightarrow>
     sqlSelectInfoQuery opts (SafeInteger 2) usersTable = ''SELECT * FROM "Users" LIMIT 2;\<newline>''\<close>
  by (simp add: sqlSelectInfoQuery_def usersTable_def numberToString_2)

lemma format_usersRows:
  "formatSqlResponseToSimpleTableString (RowArray usersRows) = '' 1 a\<newline> 2 b\<newline>''"
  by (simp add: formatSqlResponseToSimpleTableString_def usersRows_def Object_values_def
      numberToString_1 numberToString_2)

lemma tableInfo_usersTable:
  \<open>db_type (options appDataSource) \<noteq> ''mysql'' \<Longrightarrow>
   query appDataSource ''SELECT * FROM "Users" LIMIT 2;\<newline>'' = Inr (RowArray usersRows) \<Longrightarrow>
   tableInfo appDataSource (SafeInteger 2) usersTable =
     ''CREATE TABLE Users (\<newline>id int NOT NULL, name text ) \<newline>SELECT * FROM "Users" LIMIT 2;\<newline> id name\<newline> 1 a\<newline> 2 b\<newline>''\<close>
  by (simp add: tableInfo_def sample_def
      sqlCreateTableQuery_usersTable columnNamesConcatString_usersTable
      sqlSelectInfoQuery_usersTable format_usersRows)

text \<open>
  Claim C1, as amended. For the snapshot of the one table \<open>Users\<close> with the columns \<open>id\<close>
  (int, not nullable) and \<open>name\<close> (text, nullable), a sample row count of 2, a dialect
  other than mysql and an executor that returns the rows \<open>{id:1,name:a}\<close>,
  \<open>{id:2,name:b}\<close> for the sample query, the result is the text below, in which a line
  break follows the opening parenthesis of the declaration.
\<close>

theorem users_table_info:
  \<open>db_type (options appDataSource) \<noteq> ''mysql'' \<Longrightarrow>
   query appDataSource ''SELECT * FROM "Users" LIMIT 2;\<newline>'' = Inr (RowArray usersRows) \<Longrightarrow>
   generateTableInfoFromTables (Some [usersTable]) appDataSource (SafeInteger 2) =
     ''CREATE TABLE Users (\<newline>id int NOT NULL, name text ) \<newline>SELECT * FROM "Users" LIMIT 2;\<newline> id name\<newline> 1 a\<newline> 2 b\<newline>''\<close>
  by (simp add: generateTableInfoFromTables_concat tableInfo_usersTable)

theorem users_table_info_witness:
  \<open>db_type (options usersDataSource) \<noteq> ''mysql'' \<and>
   query usersDataSource ''SELECT * FROM "Users" LIMIT 2;\<newline>'' = Inr (RowArray usersRows) \<and>
   generateTableInfoFromTables (Some [usersTable]) usersDataSource (SafeInteger 2) =
     ''CREATE TABLE Users (\<newline>id int NOT NULL, name text ) \<newline>SELECT * FROM "Users" LIMIT 2;\<newline> id name\<newline> 1 a\<newline> 2 b\<newline>''\<close>
  using users_table_info [of usersDataSource]
  by (simp add: usersDataSource_def)

text \<open>
  The text that claim C1 states, with no line break after the opening parenthesis, is not
  the result for this input.
\<close>

theorem users_table_info_counterexample:
  \<open>db_type (options usersDataSource) \<noteq> ''mysql'' \<and>
   query usersDataSource (sqlSelectInfoQuery (options usersDataSource) (SafeInteger 2) usersTable)
     = Inr (RowArray usersRows) \<and>
   generateTableInfoFromTables (Some [usersTable]) usersDataSource (SafeInteger 2) \<noteq>
     ''CREATE TABLE Users (id int NOT NULL, name text ) \<newline>SELECT * FROM "Users" LIMIT 2;\<newline> id name\<newline> 1 a\<newline> 2 b\<newline>''\<close>
proof -
  have \<open>tableInfo usersDataSource (SafeInteger 2) usersTable =
     ''CREATE TABLE Users (\<newline>id int NOT NULL, name text ) \<newline>SELECT * FROM "Users" LIMIT 2;\<newline> id name\<newline> 1 a\<newline> 2 b\<newline>''\<close>
    by (rule tableInfo_usersTable) (simp_all add: usersDataSource_def)
  then show ?thesis
    by (simp add: generateTableInfoFromTables_concat) (simp add: usersDataSource_def)
qed

lemma createColumnsLoop_text: "createColumnsLoop key cs acc = acc @ createColumnsLoop key cs []"
proof (induction cs arbitrary: key acc)
  case Nil
  show ?case by simp
next
  case (Cons c cs)
  show ?case
    by (subst (1 2) createColumnsLoop.simps, subst Cons.IH, subst (2) Cons.IH) simp
qed

lemma createColumnsLoop_append:
  "createColumnsLoop key (cs1 @ cs2) acc =
     createColumnsLoop (key + length cs1) cs2 (createColumnsLoop key cs1 acc)"
  by (induction cs1 arbitrary: key acc) simp_all

lemma sqlSelectInfoQuery_eq_iff:
  "sqlSelectInfoQuery opts n t = sqlSelectInfoQuery opts n u \<longleftrightarrow> tableName t = tableName u"
  by (simp add: sqlSelectInfoQuery_def)

lemma generateTableInfoFromTables_append:
  "generateTableInfoFromTables (Some (ts1 @ ts2)) ds n =
     generateTableInfoFromTables (Some ts1) ds n @ generateTableInfoFromTables (Some ts2) ds n"
  by (simp add: generateTableInfoFromTables_concat)

lemma sqlCreateTableQuery_ordersTable:
  "sqlCreateTableQuery ordersTable = ''CREATE TABLE Orders (\<newline>total undefined NOT NULL) \<newline>''"
  by (simp add: sqlCreateTableQuery_def ordersTable_def templateOfOptional_def)

lemma columnNamesConcatString_ordersTable:
  "columnNamesConcatString ordersTable = '' total\<newline>''"
  by (simp add: columnNamesConcatString_def ordersTable_def)

lemma sqlSelectInfoQuery_ordersTable:
  \<open>db_type opts \<noteq> ''mysql'' \<Longrightarrow>
     sqlSelectInfoQuery opts (SafeInteger 2) ordersTable = ''SELECT * FROM "Orders" LIMIT 2;\<newline>''\<close>
  by (simp add: sqlSelectInfoQuery_def ordersTable_def numberToString_2)

lemma sqlSelectInfoQuery_mysql_usersTable:
  "db_type opts = ''mysql'' \<Longrightarrow>
     sqlSelectInfoQuery opts (SafeInteger 2) usersTable = ''SELECT * FROM `Users` LIMIT 2;\<newline>''"
  by (simp add: sqlSelectInfoQuery_def usersTable_def numberToString_2)

lemma usersOnlyDataSource_simps:
  \<open>options usersOnlyDataSource = \<lparr>db_type = ''postgres'', database = None\<rparr>\<close>
  \<open>query usersOnlyDataSource ''SELECT * FROM "Users" LIMIT 2;\<newline>'' = Inr (RowArray usersRows)\<close>
  \<open>query usersOnlyDataSource ''SELECT * FROM "Orders" LIMIT 2;\<newline>'' = Inl ''relation does not exist''\<close>
  by (simp_all add: usersOnlyDataSource_def)

lemma usersDataSource_simps:
  "options usersDataSource = \<lparr>db_type = ''postgres'', database = None\<rparr>"
  "query usersDataSource sql = Inr (RowArray usersRows)"
  by (simp_all add: usersDataSource_def)

lemma mysqlDataSource_simps:
  "options mysqlDataSource = \<lparr>db_type = ''mysql'', database = Some ''shop''\<rparr>"
  "query mysqlDataSource sql = Inr (RowArray usersRows)"
  by (simp_all add: mysqlDataSource_def)

lemmas example_simps =
  usersOnlyDataSource_simps usersDataSource_simps mysqlDataSource_simps
  sqlCreateTableQuery_usersTable sqlCreateTableQuery_ordersTable
  columnNamesConcatString_usersTable columnNamesConcatString_ordersTable
  sqlSelectInfoQuery_usersTable sqlSelectInfoQuery_ordersTable sqlSelectInfoQuery_mysql_usersTable
  format_usersRows

lemma sqlSelectInfoQuery_mysql_25:
  "db_type opts = ''mysql'' \<Longrightarrow>
     sqlSelectInfoQuery opts (SafeInteger 25) usersTable = ''SELECT * FROM `Users` LIMIT 25;\<newline>''"
  by (simp add: sqlSelectInfoQuery_def usersTable_def numberToString_25)

lemma sqlSelectInfoQuery_1000:
  \<open>db_type opts \<noteq> ''mysql'' \<Longrightarrow>
     sqlSelectInfoQuery opts (SafeInteger 1000) usersTable
       = ''SELECT * FROM "Users" LIMIT 1000;\<newline>''\<close>
  by (simp add: sqlSelectInfoQuery_def usersTable_def numberToString_1000)

text \<open>
  Claim C8. The result is the concatenation, table by table, of the declaration, the
  sample-selection statement, the legend and the sample; the statement, which is also
  what the executor is asked, is \<open>SELECT * FROM `name` LIMIT count;\<close> with backticks when
  the dialect is mysql and \<open>SELECT * FROM "name" LIMIT count;\<close> with double quotes for
  every other dialect, and a line break ends it. The count shown is the decimal numeral
  of \<open>nbSampleRow\<close>: the one text that reads back as that number.
\<close>

theorem sample_statement_quoting:
  \<open>generateTableInfoFromTables (Some tables) appDataSource nbSampleRow =
     concat (map (\<lambda>currentTable.
        sqlCreateTableQuery currentTable
        @ sqlSelectInfoQuery (options appDataSource) nbSampleRow currentTable
        @ columnNamesConcatString currentTable
        @ sample appDataSource (sqlSelectInfoQuery (options appDataSource) nbSampleRow currentTable))
       tables) \<and>
   sqlSelectInfoQuery (options appDataSource) nbSampleRow currentTable =
     (if db_type (options appDataSource) = ''mysql''
      then ''SELECT * FROM `'' @ tableName currentTable @ ''` LIMIT ''
           @ numberToString nbSampleRow @ '';''
      else ''SELECT * FROM "'' @ tableName currentTable @ ''" LIMIT ''
           @ numberToString nbSampleRow @ '';'')
     @ ''\<newline>'' \<and>
   (readInteger count = Some (integerValue nbSampleRow) \<longleftrightarrow> count = numberToString nbSampleRow)\<close>
proof (intro conjI)
  show "generateTableInfoFromTables (Some tables) appDataSource nbSampleRow =
     concat (map (\<lambda>currentTable.
        sqlCreateTableQuery currentTable
        @ sqlSelectInfoQuery (options appDataSource) nbSampleRow currentTable
        @ columnNamesConcatString currentTable
        @ sample appDataSource (sqlSelectInfoQuery (options appDataSource) nbSampleRow currentTable))
       tables)"
    by (simp add: generateTableInfoFromTables_concat tableInfo_def [abs_def])
next
  show "readInteger count = Some (integerValue nbSampleRow) \<longleftrightarrow> count = numberToString nbSampleRow"
    by (rule numberToString_iff)
qed (simp add: sqlSelectInfoQuery_def)

theorem sample_statement_quoting_witness:
  \<open>generateTableInfoFromTables (Some [usersTable]) mysqlDataSource (SafeInteger 25) =
     ''CREATE TABLE Users (\<newline>id int NOT NULL, name text ) \<newline>SELECT * FROM `Users` LIMIT 25;\<newline> id name\<newline> 1 a\<newline> 2 b\<newline>'' \<and>
   sqlSelectInfoQuery (options mysqlDataSource) (SafeInteger 25) usersTable
     = ''SELECT * FROM `Users` LIMIT 25;\<newline>'' \<and>
   sqlSelectInfoQuery (options usersDataSource) (SafeInteger 1000) usersTable
     = ''SELECT * FROM "Users" LIMIT 1000;\<newline>'' \<and>
   integerValue (SafeInteger 1000) = 1000 \<and>
   readInteger ''1000'' = Some 1000 \<and>
   numberToString (SafeInteger 1000) = ''1000''\<close>
proof -
  note mysql = sample_statement_quoting
    [of "[usersTable]" mysqlDataSource "SafeInteger 25" usersTable "''25''"]
  note other = sample_statement_quoting
    [of "[usersTable]" usersDataSource "SafeInteger 1000" usersTable "''1000''"]
  have exact: "integerValue (SafeInteger 1000) = 1000"
    by (simp add: SafeInteger_inverse)
  have reads: "readInteger ''1000'' = Some 1000"
    by (simp add: readInteger_def readNatural_def digitValue_def)
  from other exact reads have shown: "numberToString (SafeInteger 1000) = ''1000''"
    by simp
  from mysql have a: "generateTableInfoFromTables (Some [usersTable]) mysqlDataSource (SafeInteger 25) =
     ''CREATE TABLE Users (\<newline>id int NOT NULL, name text ) \<newline>SELECT * FROM `Users` LIMIT 25;\<newline> id name\<newline> 1 a\<newline> 2 b\<newline>''"
    by (simp add: example_simps sample_def sqlSelectInfoQuery_mysql_25)
  from mysql have b: "sqlSelectInfoQuery (options mysqlDataSource) (SafeInteger 25) usersTable
     = ''SELECT * FROM `Users` LIMIT 25;\<newline>''"
    by (simp add: example_simps sqlSelectInfoQuery_mysql_25)
  from other have c: \<open>sqlSelectInfoQuery (options usersDataSource) (SafeInteger 1000) usersTable
     = ''SELECT * FROM "Users" LIMIT 1000;\<newline>''\<close>
    by (simp add: example_simps sqlSelectInfoQuery_1000)
  from a b c exact reads shown show ?thesis by blast
qed

text \<open>
  Claim C3. Let the executor of \<open>failing\<close> reject the sample query of the table \<open>T\<close>, and
  let \<open>succeeding\<close> be a data source of the same options that answers the sample queries
  of the tables with another name as \<open>failing\<close> does. Then the call with \<open>failing\<close> returns
  a text: the blocks of the tables in their order, where the block of a table named as
  \<open>T\<close> is its declaration, its select statement and its legend followed by an empty
  sample, and the block of any other table is the one the call with \<open>succeeding\<close> renders.
\<close>

theorem sample_failure_isolated:
  assumes "query failing (sqlSelectInfoQuery (options failing) nbSampleRow T) = Inl e"
    and "options succeeding = options failing"
    and "\<forall>t \<in> set tables. tableName t \<noteq> tableName T \<longrightarrow>
           query succeeding (sqlSelectInfoQuery (options failing) nbSampleRow t)
             = query failing (sqlSelectInfoQuery (options failing) nbSampleRow t)"
  shows "generateTableInfoFromTables (Some tables) failing nbSampleRow =
     concat (map (\<lambda>t.
        if tableName t = tableName T
        then sqlCreateTableQuery t @ sqlSelectInfoQuery (options failing) nbSampleRow t
             @ columnNamesConcatString t @ ''''
        else tableInfo succeeding nbSampleRow t) tables)"
proof -
  have "tableInfo failing nbSampleRow t =
      (if tableName t = tableName T
       then sqlCreateTableQuery t @ sqlSelectInfoQuery (options failing) nbSampleRow t
            @ columnNamesConcatString t @ ''''
       else tableInfo succeeding nbSampleRow t)" if t: "t \<in> set tables" for t
  proof (cases "tableName t = tableName T")
    case True
    then have "sqlSelectInfoQuery (options failing) nbSampleRow t =
        sqlSelectInfoQuery (options failing) nbSampleRow T"
      by (simp add: sqlSelectInfoQuery_eq_iff)
    with assms(1) True show ?thesis
      by (simp add: tableInfo_def sample_def)
  next
    case False
    with assms(3) t
    have "query succeeding (sqlSelectInfoQuery (options failing) nbSampleRow t)
        = query failing (sqlSelectInfoQuery (options failing) nbSampleRow t)"
      by blast
    with False assms(2) show ?thesis
      by (simp add: tableInfo_def sample_def)
  qed
  then show ?thesis
    unfolding generateTableInfoFromTables_concat
    by (intro arg_cong [where f = concat] map_cong refl)
qed

theorem sample_failure_isolated_witness:
  \<open>query usersOnlyDataSource (sqlSelectInfoQuery (options usersOnlyDataSource) (SafeInteger 2) ordersTable)
     = Inl ''relation does not exist'' \<and>
   options usersDataSource = options usersOnlyDataSource \<and>
   query usersDataSource (sqlSelectInfoQuery (options usersOnlyDataSource) (SafeInteger 2) usersTable)
     = query usersOnlyDataSource (sqlSelectInfoQuery (options usersOnlyDataSource) (SafeInteger 2) usersTable) \<and>
   generateTableInfoFromTables (Some [usersTable, ordersTable]) usersOnlyDataSource (SafeInteger 2) =
     ''CREATE TABLE Users (\<newline>id int NOT NULL, name text ) \<newline>SELECT * FROM "Users" LIMIT 2;\<newline> id name\<newline> 1 a\<newline> 2 b\<newline>''
     @ ''CREATE TABLE Orders (\<newline>total undefined NOT NULL) \<newline>SELECT * FROM "Orders" LIMIT 2;\<newline> total\<newline>''\<close>
proof -
  have failing: "query usersOnlyDataSource
      (sqlSelectInfoQuery (options usersOnlyDataSource) (SafeInteger 2) ordersTable)
      = Inl ''relation does not exist''"
    by (simp add: example_simps)
  have same: "options usersDataSource = options usersOnlyDataSource"
    by (simp add: example_simps)
  have others: "\<forall>t \<in> set [usersTable, ordersTable]. tableName t \<noteq> tableName ordersTable \<longrightarrow>
      query usersDataSource (sqlSelectInfoQuery (options usersOnlyDataSource) (SafeInteger 2) t)
        = query usersOnlyDataSource (sqlSelectInfoQuery (options usersOnlyDataSource) (SafeInteger 2) t)"
    by (simp add: example_simps)
  have names: "tableName usersTable \<noteq> tableName ordersTable"
    by (simp add: usersTable_def ordersTable_def)
  from sample_failure_isolated [OF failing same others] names
  show ?thesis
    by (simp add: example_simps tableInfo_def sample_def)
qed





text \<open>
  Without a fixed function behind the executor the result is not repeatable: the
  executor that answers its first query only gives the sample rows to the first call and
  none to the second.
\<close>

lemma closingDataSource_not_repeatable:
  "fst (generateTableInfoFromTablesRun (Some [usersTable]) closingDataSource (SafeInteger 2)
         (snd (generateTableInfoFromTablesRun (Some [usersTable]) closingDataSource
                 (SafeInteger 2) 0)))
     \<noteq> fst (generateTableInfoFromTablesRun (Some [usersTable]) closingDataSource
               (SafeInteger 2) 0)"
  by (simp add: generateTableInfoFromTablesRun_def closingDataSource_def format_usersRows)



text \<open>
  Claim C10. With \<open>tables\<close> undefined the result is the empty string. The block of a table
  starts with its declaration, and in the declaration a column whose \<open>dataType\<close> is absent
  is rendered with the text \<open>undefined\<close> between its name and its nullability, after the
  columns before it and the separator.
\<close>

theorem undefined_inputs:
  "generateTableInfoFromTables None appDataSource nbSampleRow = '''' \<and>
   generateTableInfoFromTables (Some (before @ [currentTable] @ after)) appDataSource nbSampleRow =
     generateTableInfoFromTables (Some before) appDataSource nbSampleRow
     @ sqlCreateTableQuery currentTable
     @ sqlSelectInfoQuery (options appDataSource) nbSampleRow currentTable
     @ columnNamesConcatString currentTable
     @ sample appDataSource (sqlSelectInfoQuery (options appDataSource) nbSampleRow currentTable)
     @ generateTableInfoFromTables (Some after) appDataSource nbSampleRow \<and>
   sqlCreateTableQuery
       \<lparr>tableName = name,
        columns = cs1 @ [\<lparr>columnName = cn, dataType = None, isNullable = nl\<rparr>] @ cs2\<rparr> =
     createColumnsLoop 0 cs1 (''CREATE TABLE '' @ name @ '' (\<newline>'')
     @ (if length cs1 > 0 then '', '' else '''')
     @ cn @ '' '' @ ''undefined'' @ '' '' @ (if nl = Some True then '''' else ''NOT NULL'')
     @ createColumnsLoop (Suc (length cs1)) cs2 ''''
     @ '') \<newline>''"
proof (intro conjI)
  show "generateTableInfoFromTables None appDataSource nbSampleRow = ''''"
    by (simp add: generateTableInfoFromTables_def)
next
  show "generateTableInfoFromTables (Some (before @ [currentTable] @ after)) appDataSource
        nbSampleRow =
     generateTableInfoFromTables (Some before) appDataSource nbSampleRow
     @ sqlCreateTableQuery currentTable
     @ sqlSelectInfoQuery (options appDataSource) nbSampleRow currentTable
     @ columnNamesConcatString currentTable
     @ sample appDataSource (sqlSelectInfoQuery (options appDataSource) nbSampleRow currentTable)
     @ generateTableInfoFromTables (Some after) appDataSource nbSampleRow"
    by (simp add: generateTableInfoFromTables_concat tableInfo_def)
next
  let ?c = "\<lparr>columnName = cn, dataType = None, isNullable = nl\<rparr>"
  let ?header = "''CREATE TABLE '' @ name @ '' (\<newline>''"
  let ?sofar = "(if length cs1 > 0
                 then createColumnsLoop 0 cs1 ?header @ '', ''
                 else createColumnsLoop 0 cs1 ?header)
                @ cn @ '' '' @ ''undefined'' @ '' ''
                @ (if nl = Some True then '''' else ''NOT NULL'')"
  have "createColumnsLoop 0 (cs1 @ [?c] @ cs2) ?header =
      createColumnsLoop (Suc (length cs1)) cs2 ?sofar"
    by (simp add: createColumnsLoop_append templateOfOptional_def)
  also have "\<dots> = ?sofar @ createColumnsLoop (Suc (length cs1)) cs2 ''''"
    by (rule createColumnsLoop_text)
  finally show "sqlCreateTableQuery \<lparr>tableName = name, columns = cs1 @ [?c] @ cs2\<rparr> =
     createColumnsLoop 0 cs1 ?header
     @ (if length cs1 > 0 then '', '' else '''')
     @ cn @ '' '' @ ''undefined'' @ '' '' @ (if nl = Some True then '''' else ''NOT NULL'')
     @ createColumnsLoop (Suc (length cs1)) cs2 ''''
     @ '') \<newline>''"
    by (simp add: sqlCreateTableQuery_def)
qed

theorem undefined_inputs_witness:
  \<open>generateTableInfoFromTables None usersOnlyDataSource (SafeInteger 2) = '''' \<and>
   dataType (hd (columns ordersTable)) = None \<and>
   generateTableInfoFromTables (Some [ordersTable]) usersOnlyDataSource (SafeInteger 2) =
     ''CREATE TABLE Orders (\<newline>total undefined NOT NULL) \<newline>SELECT * FROM "Orders" LIMIT 2;\<newline> total\<newline>''\<close>
  using undefined_inputs [of usersOnlyDataSource "SafeInteger 2" "[]" ordersTable "[]" "''Orders''" "[]"
      "''total''" None "[]"]
  by (simp add: example_simps sample_def generateTableInfoFromTables_def)
     (simp add: ordersTable_def)

section \<open>Facts about the catalog query\<close>

lemma queryAndFormat_not_Error: "queryAndFormat ds sql \<noteq> Inl (Error msg)"
  by (simp add: queryAndFormat_def split: sum.split)

text \<open>
  Claim C2. For a dialect other than postgres, sqlite and mysql,
  \<open>getTableAndColumnsName\<close> fails with the error of the message
  \<open>Database type not implemented yet\<close>, so it returns no schema, empty or not; for each of
  the three dialects it does not fail with that error.
\<close>

theorem getTableAndColumnsName_dialects:
  "(db_type (options appDataSource) \<notin> {''postgres'', ''sqlite'', ''mysql''} \<longrightarrow>
      getTableAndColumnsName appDataSource = Inl (Error ''Database type not implemented yet'')) \<and>
   (db_type (options appDataSource) \<in> {''postgres'', ''sqlite'', ''mysql''} \<longrightarrow>
      getTableAndColumnsName appDataSource \<noteq> Inl (Error ''Database type not implemented yet''))"
  by (simp add: getTableAndColumnsName_def queryAndFormat_not_Error)

theorem getTableAndColumnsName_dialects_witness:
  "db_type (options oracleDataSource) \<notin> {''postgres'', ''sqlite'', ''mysql''} \<and>
   getTableAndColumnsName oracleDataSource = Inl (Error ''Database type not implemented yet'') \<and>
   db_type (options sqliteDataSource) \<in> {''postgres'', ''sqlite'', ''mysql''} \<and>
   getTableAndColumnsName sqliteDataSource = Inr exampleSnapshot \<and>
   getTableAndColumnsName sqliteDataSource \<noteq> Inl (Error ''Database type not implemented yet'')"
  using getTableAndColumnsName_dialects [of oracleDataSource]
    getTableAndColumnsName_dialects [of sqliteDataSource]
  by (simp add: oracleDataSource_def sqliteDataSource_def getTableAndColumnsName_def
      queryAndFormat_def formatToSqlTable_exampleRows)

lemma postgresSql_from:
  "sublist ''FROM\<newline>    information_schema.tables t\<newline>        JOIN information_schema.columns c\<newline>'' postgresSql"
  by (simp add: postgresSql_def sublist_Cons_right)

lemma postgresSql_where:
  "sublist ''WHERE\<newline>        t.table_schema = 'public'\<newline>ORDER BY\<newline>'' postgresSql"
  by (simp add: postgresSql_def sublist_Cons_right)

lemma sqliteSql_from:
  "sublist ''FROM \<newline>   sqlite_master m \<newline>JOIN \<newline>   pragma_table_info(m.name) p \<newline>'' sqliteSql"
  by (simp add: sqliteSql_def sublist_Cons_right)

lemma sqliteSql_where:
  "suffix ''WHERE \<newline>   m.type = 'table' AND \<newline>   m.name NOT LIKE 'sqlite_%';\<newline>'' sqliteSql"
  by (simp add: sqliteSql_def suffix_to_prefix)

lemma mysqlSql_from: "sublist ''FROM INFORMATION_SCHEMA.COLUMNS '' (mysqlSql db)"
  by (simp add: mysqlSql_def sublist_Cons_right)

lemma mysqlSql_where:
  "suffix (''WHERE TABLE_SCHEMA = '' @ [CHR 0x27] @ templateOfOptional db @ [CHR 0x27] @ '';'')
     (mysqlSql db)"
  by (simp add: mysqlSql_def suffix_to_prefix)

lemma sqliteSql_sqlite_master: "sublist ''sqlite_master'' sqliteSql"
  by (simp add: sqliteSql_def sublist_Cons_right)

lemma referencesSystemCatalog_postgresSql: "referencesSystemCatalog ''postgres'' postgresSql"
  by (simp add: referencesSystemCatalog_def systemCatalogObjects_def postgresSql_def
      sublist_Cons_right)

lemma referencesSystemCatalog_sqliteSql: "referencesSystemCatalog ''sqlite'' sqliteSql"
  by (simp add: referencesSystemCatalog_def systemCatalogObjects_def sqliteSql_sqlite_master)

lemma referencesSystemCatalog_mysqlSql: "referencesSystemCatalog ''mysql'' (mysqlSql db)"
  by (simp add: referencesSystemCatalog_def systemCatalogObjects_def mysqlSql_def
      sublist_Cons_right)

lemma catalog_sql_nonempty: "postgresSql \<noteq> []" "sqliteSql \<noteq> []" "mysqlSql db \<noteq> []"
  by (simp_all add: postgresSql_def sqliteSql_def mysqlSql_def)

lemma queryAndFormat_echo: "queryAndFormat (ds\<lparr>query := Inl\<rparr>) sql = Inl (QueryFailed sql)"
  by (simp add: queryAndFormat_def)

lemma getTableAndColumnsName_postgres:
  "db_type (options ds) = ''postgres'' \<Longrightarrow>
     getTableAndColumnsName ds = queryAndFormat ds postgresSql"
  by (simp add: getTableAndColumnsName_def)

lemma getTableAndColumnsName_sqlite:
  "db_type (options ds) = ''sqlite'' \<Longrightarrow>
     getTableAndColumnsName ds = queryAndFormat ds sqliteSql"
  by (simp add: getTableAndColumnsName_def)

lemma getTableAndColumnsName_mysql:
  "db_type (options ds) = ''mysql'' \<Longrightarrow>
     getTableAndColumnsName ds = queryAndFormat ds (mysqlSql (database (options ds)))"
  by (simp add: getTableAndColumnsName_def)

text \<open>
  Claim C7, as amended. For each of the dialects postgres, sqlite and mysql, the catalog
  SQL that \<open>getTableAndColumnsName\<close> sends to the executor (the text an executor that
  rejects with the query text reports) is not empty and reads the system catalog of that
  dialect: \<open>information_schema.tables\<close> joined with \<open>information_schema.columns\<close> for
  postgres, \<open>sqlite_master\<close> joined with \<open>pragma_table_info\<close> for sqlite,
  \<open>INFORMATION_SCHEMA.COLUMNS\<close> for mysql. Its \<open>WHERE\<close> clause keeps the listing to user
  tables: the schema \<open>public\<close> for postgres; relations of type \<open>table\<close> whose names do not
  match the internal prefix \<open>sqlite_\<close> for sqlite, where the clause ends the query; the
  schema named by \<open>options.database\<close> for mysql, where the clause ends the query.
\<close>

theorem catalog_sql_selected:
  "db_type (options appDataSource) \<in> {''postgres'', ''sqlite'', ''mysql''} \<longrightarrow>
     (\<exists>sql. getTableAndColumnsName appDataSource = queryAndFormat appDataSource sql \<and>
            getTableAndColumnsName (appDataSource\<lparr>query := Inl\<rparr>) = Inl (QueryFailed sql) \<and>
            sql \<noteq> [] \<and>
            referencesSystemCatalog (db_type (options appDataSource)) sql \<and>
            (db_type (options appDataSource) = ''postgres'' \<longrightarrow>
               sql = postgresSql \<and>
               sublist ''FROM\<newline>    information_schema.tables t\<newline>        JOIN information_schema.columns c\<newline>'' sql \<and>
               sublist ''WHERE\<newline>        t.table_schema = 'public'\<newline>ORDER BY\<newline>'' sql) \<and>
            (db_type (options appDataSource) = ''sqlite'' \<longrightarrow>
               sql = sqliteSql \<and>
               sublist ''FROM \<newline>   sqlite_master m \<newline>JOIN \<newline>   pragma_table_info(m.name) p \<newline>'' sql \<and>
               suffix ''WHERE \<newline>   m.type = 'table' AND \<newline>   m.name NOT LIKE 'sqlite_%';\<newline>'' sql) \<and>
            (db_type (options appDataSource) = ''mysql'' \<longrightarrow>
               sql = mysqlSql (database (options appDataSource)) \<and>
               sublist ''FROM INFORMATION_SCHEMA.COLUMNS '' sql \<and>
               suffix (''WHERE TABLE_SCHEMA = '' @ [CHR 0x27]
                       @ templateOfOptional (database (options appDataSource))
                       @ [CHR 0x27] @ '';'') sql))"
proof
  assume "db_type (options appDataSource) \<in> {''postgres'', ''sqlite'', ''mysql''}"
  then consider (postgres) "db_type (options appDataSource) = ''postgres''"
    | (sqlite) "db_type (options appDataSource) = ''sqlite''"
    | (mysql) "db_type (options appDataSource) = ''mysql''"
    by auto
  then show "\<exists>sql. getTableAndColumnsName appDataSource = queryAndFormat appDataSource sql \<and>
            getTableAndColumnsName (appDataSource\<lparr>query := Inl\<rparr>) = Inl (QueryFailed sql) \<and>
            sql \<noteq> [] \<and>
            referencesSystemCatalog (db_type (options appDataSource)) sql \<and>
            (db_type (options appDataSource) = ''postgres'' \<longrightarrow>
               sql = postgresSql \<and>
               sublist ''FROM\<newline>    information_schema.tables t\<newline>        JOIN information_schema.columns c\<newline>'' sql \<and>
               sublist ''WHERE\<newline>        t.table_schema = 'public'\<newline>ORDER BY\<newline>'' sql) \<and>
            (db_type (options appDataSource) = ''sqlite'' \<longrightarrow>
               sql = sqliteSql \<and>
               sublist ''FROM \<newline>   sqlite_master m \<newline>JOIN \<newline>   pragma_table_info(m.name) p \<newline>'' sql \<and>
               suffix ''WHERE \<newline>   m.type = 'table' AND \<newline>   m.name NOT LIKE 'sqlite_%';\<newline>'' sql) \<and>
            (db_type (options appDataSource) = ''mysql'' \<longrightarrow>
               sql = mysqlSql (database (options appDataSource)) \<and>
               sublist ''FROM INFORMATION_SCHEMA.COLUMNS '' sql \<and>
               suffix (''WHERE TABLE_SCHEMA = '' @ [CHR 0x27]
                       @ templateOfOptional (database (options appDataSource))
                       @ [CHR 0x27] @ '';'') sql)"
  proof cases
    case postgres
    have "getTableAndColumnsName (appDataSource\<lparr>query := Inl\<rparr>) = Inl (QueryFailed postgresSql)"
      using postgres by (simp add: getTableAndColumnsName_postgres queryAndFormat_echo)
    with postgres show ?thesis
      using getTableAndColumnsName_postgres [of appDataSource] catalog_sql_nonempty(1)
        referencesSystemCatalog_postgresSql postgresSql_from postgresSql_where
      by (intro exI [of _ postgresSql]) simp
  next
    case sqlite
    have "getTableAndColumnsName (appDataSource\<lparr>query := Inl\<rparr>) = Inl (QueryFailed sqliteSql)"
      using sqlite by (simp add: getTableAndColumnsName_sqlite queryAndFormat_echo)
    with sqlite show ?thesis
      using getTableAndColumnsName_sqlite [of appDataSource] catalog_sql_nonempty(2)
        referencesSystemCatalog_sqliteSql sqliteSql_from sqliteSql_where
      by (intro exI [of _ sqliteSql]) simp
  next
    case mysql
    let ?sql = "mysqlSql (database (options appDataSource))"
    have "getTableAndColumnsName (appDataSource\<lparr>query := Inl\<rparr>) = Inl (QueryFailed ?sql)"
      using mysql by (simp add: getTableAndColumnsName_mysql queryAndFormat_echo)
    with mysql show ?thesis
      using getTableAndColumnsName_mysql [of appDataSource]
        catalog_sql_nonempty(3) [of "database (options appDataSource)"]
        referencesSystemCatalog_mysqlSql [of "database (options appDataSource)"]
        mysqlSql_from [of "database (options appDataSource)"]
        mysqlSql_where [of "database (options appDataSource)"]
      by (intro exI [of _ ?sql]) simp
  qed
qed

theorem catalog_sql_selected_witness:
  "db_type (options (echoDataSource ''mysql'' (Some ''shop''))) \<in> {''postgres'', ''sqlite'', ''mysql''} \<and>
   getTableAndColumnsName (echoDataSource ''mysql'' (Some ''shop''))
     = Inl (QueryFailed (mysqlSql (Some ''shop''))) \<and>
   mysqlSql (Some ''shop'') \<noteq> [] \<and>
   referencesSystemCatalog ''mysql'' (mysqlSql (Some ''shop'')) \<and>
   sublist ''FROM INFORMATION_SCHEMA.COLUMNS '' (mysqlSql (Some ''shop'')) \<and>
   suffix (''WHERE TABLE_SCHEMA = '' @ [CHR 0x27] @ ''shop'' @ [CHR 0x27] @ '';'')
     (mysqlSql (Some ''shop''))"
proof -
  let ?ds = "echoDataSource ''mysql'' (Some ''shop'')"
  have dialect: "db_type (options ?ds) = ''mysql''" and db: "database (options ?ds) = Some ''shop''"
    by (simp_all add: echoDataSource_def)
  have supported: "db_type (options ?ds) \<in> {''postgres'', ''sqlite'', ''mysql''}"
    by (simp add: dialect)
  have echo: "?ds\<lparr>query := Inl\<rparr> = ?ds"
    by (simp add: echoDataSource_def)
  from catalog_sql_selected [of ?ds] supported
  obtain sql where run: "getTableAndColumnsName (?ds\<lparr>query := Inl\<rparr>) = Inl (QueryFailed sql)"
    and nonempty: "sql \<noteq> []"
    and refs: "referencesSystemCatalog (db_type (options ?ds)) sql"
    and mysql: "db_type (options ?ds) = ''mysql'' \<longrightarrow>
               sql = mysqlSql (database (options ?ds)) \<and>
               sublist ''FROM INFORMATION_SCHEMA.COLUMNS '' sql \<and>
               suffix (''WHERE TABLE_SCHEMA = '' @ [CHR 0x27]
                       @ templateOfOptional (database (options ?ds))
                       @ [CHR 0x27] @ '';'') sql"
    by blast
  from mysql dialect
  have found: "sql = mysqlSql (database (options ?ds)) \<and>
               sublist ''FROM INFORMATION_SCHEMA.COLUMNS '' sql \<and>
               suffix (''WHERE TABLE_SCHEMA = '' @ [CHR 0x27]
                       @ templateOfOptional (database (options ?ds))
                       @ [CHR 0x27] @ '';'') sql"
    by blast
  then have sql: "sql = mysqlSql (Some ''shop'')"
    by (simp add: db)
  from found have reads: "sublist ''FROM INFORMATION_SCHEMA.COLUMNS '' sql"
    by blast
  have shown: "templateOfOptional (database (options ?ds)) = ''shop''"
    by (simp add: db templateOfOptional_def)
  from found
  have filters: "suffix (''WHERE TABLE_SCHEMA = '' @ [CHR 0x27] @ ''shop'' @ [CHR 0x27] @ '';'') sql"
    unfolding shown by blast
  from run echo have sent: "getTableAndColumnsName ?ds = Inl (QueryFailed sql)"
    by simp
  from supported sent nonempty refs reads filters show ?thesis
    unfolding sql dialect by blast
qed

text \<open>
  Against claim C7 as the specification states it: the SQL sent for the sqlite dialect
  names \<open>sqlite_master\<close>, the schema table of sqlite.
\<close>

theorem catalog_sql_counterexample:
  "db_type (options (echoDataSource ''sqlite'' None)) \<in> {''postgres'', ''sqlite'', ''mysql''} \<and>
   getTableAndColumnsName (echoDataSource ''sqlite'' None) = Inl (QueryFailed sqliteSql) \<and>
   sublist ''sqlite_master'' sqliteSql \<and>
   referencesSystemCatalog ''sqlite'' sqliteSql"
  by (simp add: echoDataSource_def getTableAndColumnsName_def queryAndFormat_def
      sqliteSql_sqlite_master referencesSystemCatalog_sqliteSql)

end
